theory Spec2Isabelle
  imports Main "HOL-Library.AList"
begin

section \<open>The DOM as the helpers in a11y.js see it\<close>

text \<open>
  A node of a DOM tree is an element, a text node or a comment. An element has its two
  names (the tag name as \<open>element.tagName\<close> reports it, and the local name that type
  selectors match: \<open>DIV\<close> and \<open>div\<close> for an HTML element of an HTML document), the
  attribute list in the order of the element's attribute map, and the child nodes.
  Strings are lists of code units; the characters used here are those below 256. The
  document is given by its root element.
\<close>

datatype node =
    Element "string \<times> string" "(string \<times> string) list" "node list"
  | Text string
  | Comment string

fun isElement :: "node \<Rightarrow> bool" where
  "isElement (Element names as cs) = True"
| "isElement (Text s) = False"
| "isElement (Comment s) = False"

fun tagName :: "node \<Rightarrow> string" where
  "tagName (Element names as cs) = fst names"
| "tagName (Text s) = []"
| "tagName (Comment s) = []"

fun localName :: "node \<Rightarrow> string" where
  "localName (Element names as cs) = snd names"
| "localName (Text s) = []"
| "localName (Comment s) = []"

fun childNodes :: "node \<Rightarrow> node list" where
  "childNodes (Element names as cs) = cs"
| "childNodes (Text s) = []"
| "childNodes (Comment s) = []"

text \<open>\<open>getAttribute\<close> returns null (\<open>None\<close>) for an attribute that is absent.\<close>

fun getAttribute :: "node \<Rightarrow> string \<Rightarrow> string option" where
  "getAttribute (Element names as cs) name = map_of as name"
| "getAttribute (Text s) name = None"
| "getAttribute (Comment s) name = None"

text \<open>\<open>setAttribute\<close> changes the value in place when the attribute exists and appends
  it otherwise; \<open>removeAttribute\<close> deletes it.\<close>

fun setAttribute :: "node \<Rightarrow> string \<Rightarrow> string \<Rightarrow> node" where
  "setAttribute (Element names as cs) name v = Element names (AList.update name v as) cs"
| "setAttribute (Text s) name v = Text s"
| "setAttribute (Comment s) name v = Comment s"

fun removeAttribute :: "node \<Rightarrow> string \<Rightarrow> node" where
  "removeAttribute (Element names as cs) name = Element names (AList.delete name as) cs"
| "removeAttribute (Text s) name = Text s"
| "removeAttribute (Comment s) name = Comment s"

text \<open>JavaScript truthiness of a value that is a string or null: null and the empty
  string are falsy.\<close>

fun truthy :: "string option \<Rightarrow> bool" where
  "truthy None = False"
| "truthy (Some s) = (s \<noteq> [])"

text \<open>The conversion of a string-or-null argument to a DOMString: null becomes the
  four characters \<open>null\<close>.\<close>

fun toDOMString :: "string option \<Rightarrow> string" where
  "toDOMString None = ''null''"
| "toDOMString (Some s) = s"

text \<open>\<open>String.prototype.trim\<close>: the white space and line terminator code units below
  256 are tab, line feed, vertical tab, form feed, carriage return, space and the
  no-break space.\<close>

definition isWhiteSpace :: "char \<Rightarrow> bool" where
  "isWhiteSpace c = (c \<in> set [CHR 0x09, CHR 0x0A, CHR 0x0B, CHR 0x0C, CHR 0x0D, CHR 0x20, CHR 0xA0])"

definition trim :: "string \<Rightarrow> string" where
  "trim s = rev (dropWhile isWhiteSpace (rev (dropWhile isWhiteSpace s)))"

text \<open>The \<open>textContent\<close> getter: the data of all text node descendants, in tree order;
  comments contribute nothing.\<close>

fun textContent :: "node \<Rightarrow> string" where
  "textContent (Element names as cs) = concat (map textContent cs)"
| "textContent (Text s) = s"
| "textContent (Comment s) = []"

text \<open>The \<open>textContent\<close> setter replaces all children of an element by one text node,
  or by nothing when the string is empty.\<close>

definition textChildren :: "string \<Rightarrow> node list" where
  "textChildren s = (if s = [] then [] else [Text s])"

text \<open>\<open>cloneNode(true)\<close> copies the whole subtree; on values the copy is the value.\<close>

definition cloneNode :: "node \<Rightarrow> node" where
  "cloneNode n = n"

subsection \<open>Tree order and queries\<close>

text \<open>
  The descendants of a node in tree order (preorder), each with the path of child
  indices that leads to it from the node. The node itself is not among them.
\<close>

lemma size_member_less:
  "c \<in> set cs \<Longrightarrow> size c < Suc (size_list size cs)"
  by (induction cs) auto

lemma size_child_less:
  "(i, c) \<in> set (enumerate n cs) \<Longrightarrow> size c < Suc (size_list size cs)"
  by (auto simp: in_set_enumerate_eq intro: size_member_less)

function descendants :: "node \<Rightarrow> (nat list \<times> node) list" where
  "descendants (Element names as cs) =
     concat (map (\<lambda>(i, c). map (\<lambda>(p, d). (i # p, d)) (([], c) # descendants c))
                 (enumerate 0 cs))"
| "descendants (Text s) = []"
| "descendants (Comment s) = []"
  by pat_completeness auto
termination
  by (relation "measure size") (auto dest: size_child_less)

text \<open>\<open>querySelectorAll\<close> with a selector given as a predicate on elements: the
  matching descendant elements in tree order, as a static list.\<close>

definition querySelectorAll :: "(node \<Rightarrow> bool) \<Rightarrow> node \<Rightarrow> (nat list \<times> node) list" where
  "querySelectorAll sel root = filter (\<lambda>(p, d). isElement d \<and> sel d) (descendants root)"

text \<open>The selector \<open>[aria-label], [aria-labelledby]\<close>: the attribute is present, with
  any value.\<close>

definition labelSelector :: "node \<Rightarrow> bool" where
  "labelSelector d =
     (getAttribute d ''aria-label'' \<noteq> None \<or> getAttribute d ''aria-labelledby'' \<noteq> None)"

text \<open>The selector \<open>h1, h2, h3, h4, h5, h6\<close>: a type selector matches the local name
  of an element, whatever its tag name is.\<close>

definition headlineSelector :: "node \<Rightarrow> bool" where
  "headlineSelector d = (localName d \<in> set [''h1'', ''h2'', ''h3'', ''h4'', ''h5'', ''h6''])"

text \<open>\<open>document.getElementById\<close>: the first element in tree order whose \<open>id\<close> attribute
  has the given value. An element with an empty \<open>id\<close> attribute has no ID, so the empty
  string finds nothing.\<close>

definition getElementById :: "node \<Rightarrow> string \<Rightarrow> node option" where
  "getElementById doc elementId =
     (if elementId = [] then None
      else find (\<lambda>d. isElement d \<and> getAttribute d ''id'' = Some elementId)
                (doc # map snd (descendants doc)))"

text \<open>Assigning \<open>textContent\<close> on the element at a path of a tree. A path that no longer
  leads to an element (the element was detached when the children of one of its
  ancestors were replaced) leaves the tree as it is.\<close>

fun setTextContentAt :: "nat list \<Rightarrow> string \<Rightarrow> node \<Rightarrow> node" where
  "setTextContentAt [] s (Element names as cs) = Element names as (textChildren s)"
| "setTextContentAt (i # p) s (Element names as cs) =
     (if i < length cs then Element names as (cs[i := setTextContentAt p s (cs ! i)])
      else Element names as cs)"
| "setTextContentAt p s (Text x) = Text x"
| "setTextContentAt p s (Comment x) = Comment x"

section \<open>getA11yLabel\<close>

text \<open>
  The label of an element as the source computes it. The elements of the static list
  returned by \<open>querySelectorAll\<close> are visited in tree order; an element's subtree is as
  it was cloned when the element is visited, since only the children of elements
  visited before it (none of them its descendants) have been replaced. The assignment
  changes the clone where the element is still attached to it.
\<close>

lemma size_descendants_less:
  "(p, d) \<in> set (descendants n) \<Longrightarrow> size d < size n"
proof (induction n arbitrary: p d rule: descendants.induct)
  case (1 names as cs)
  from "1.prems" obtain i c q where ic: "(i, c) \<in> set (enumerate 0 cs)"
    and q: "(q, d) = ([], c) \<or> (q, d) \<in> set (descendants c)"
    by auto
  from ic have c: "size c < Suc (size_list size cs)" by (rule size_child_less)
  from q show ?case
  proof
    assume "(q, d) = ([], c)"
    with c show ?thesis by simp
  next
    assume "(q, d) \<in> set (descendants c)"
    with "1.IH" ic have "size d < size c" by blast
    with c show ?thesis by simp
  qed
qed simp_all

function getA11yLabel :: "node \<Rightarrow> node \<Rightarrow> string" where
  "getA11yLabel doc element =
     (if truthy (getAttribute element ''aria-label'')
      then the (getAttribute element ''aria-label'')
      else
        let labelledById = getAttribute element ''aria-labelledby'';
            labelledByElement = getElementById doc (toDOMString labelledById)
        in case labelledByElement of
             Some r \<Rightarrow> trim (textContent r)
           | None \<Rightarrow>
               (let clonedElement = cloneNode element
                in trim (textContent
                     (fold (\<lambda>(p, el) c. setTextContentAt p (getA11yLabel doc el) c)
                           (querySelectorAll labelSelector clonedElement)
                           clonedElement))))"
  by pat_completeness auto
termination
  by (relation "measure (\<lambda>(doc, element). size element)")
     (auto simp: querySelectorAll_def cloneNode_def dest: size_descendants_less)

declare getA11yLabel.simps [simp del]

section \<open>setModalA11yAttributes and its helpers\<close>

text \<open>\<open>getFirstHeadline\<close>: the trimmed text of the first heading below the container whose
  trimmed text is not empty, or null.\<close>

definition getFirstHeadline :: "node \<Rightarrow> string option" where
  "getFirstHeadline container =
     (let headlines = map snd (querySelectorAll headlineSelector container);
          firstHeadlineWithText = find (\<lambda>headline. trim (textContent headline) \<noteq> []) headlines
      in case firstHeadlineWithText of
           Some headline \<Rightarrow> Some (trim (textContent headline))
         | None \<Rightarrow> None)"

text \<open>
  The functions that change an element return the element as it is after the call. The
  document is read only through \<open>getElementById\<close> and the text of the element found;
  neither depends on the attributes these functions write, so the document as it was
  before the call gives the same answers when the element is part of it.
\<close>

definition replaceAriaLabelledByWithAriaLabel :: "node \<Rightarrow> node \<Rightarrow> node" where
  "replaceAriaLabelledByWithAriaLabel doc element =
     (let labelledById = getAttribute element ''aria-labelledby'';
          labelledByElement = getElementById doc (toDOMString labelledById)
      in case labelledByElement of
           None \<Rightarrow> element
         | Some r \<Rightarrow>
             removeAttribute (setAttribute element ''aria-label'' (trim (textContent r)))
                             ''aria-labelledby'')"

definition setModalA11yAttributes :: "node \<Rightarrow> node \<Rightarrow> node" where
  "setModalA11yAttributes doc element =
     (let e1 = (if \<not> truthy (getAttribute element ''role'')
                then setAttribute element ''role'' ''dialog'' else element);
          e2 = setAttribute e1 ''aria-modal'' ''true'';
          modalHeadline = getFirstHeadline e2
      in if truthy modalHeadline
            \<and> \<not> truthy (getAttribute e2 ''aria-label'')
            \<and> \<not> truthy (getAttribute e2 ''aria-labelledby'')
         then setAttribute e2 ''aria-label'' (the modalHeadline)
         else if truthy (getAttribute e2 ''aria-labelledby'')
         then replaceAriaLabelledByWithAriaLabel doc e2
         else e2)"

section \<open>addIdToElement\<close>

text \<open>
  The code reads the property \<open>element.id\<close>. The property reflects the \<open>id\<close> attribute
  and is the empty string when the attribute is absent, except on a form: the controls
  of a form are properties of the form under their names and ids, and they come before
  the properties of the interface, so that on a form with a control named \<open>id\<close> the
  value of \<open>element.id\<close> is that control, an object. Which controls belong to a form is
  not a matter of its subtree alone; whether the element is a form with a control named
  \<open>id\<close> is a parameter of the model. So is the string that \<open>crypto.randomUUID()\<close>
  returns.
\<close>

datatype idValue = IdString string | IdControl

definition idProperty :: "bool \<Rightarrow> node \<Rightarrow> idValue" where
  "idProperty controlNamedId element =
     (if controlNamedId then IdControl
      else IdString (case getAttribute element ''id'' of None \<Rightarrow> [] | Some v \<Rightarrow> v))"

text \<open>Truthiness of the value: an object is truthy, a string is when it is not empty.\<close>

fun truthyId :: "idValue \<Rightarrow> bool" where
  "truthyId (IdString s) = (s \<noteq> [])"
| "truthyId IdControl = True"

definition addIdToElement :: "bool \<Rightarrow> string \<Rightarrow> node \<Rightarrow> node" where
  "addIdToElement controlNamedId randomUUID element =
     (if truthyId (idProperty controlNamedId element) then element
      else setAttribute element ''id'' randomUUID)"

section \<open>createA11yButton\<close>

text \<open>
  A key event carries \<open>key\<close> (a string, or undefined in older event shapes) and
  \<open>keyCode\<close> (a number, or undefined). The local \<open>key\<close> of the handler is one or the
  other, and is compared with \<open>===\<close>, which never identifies a string with a number.
\<close>

record keyboardEvent =
  key :: "string option"
  keyCode :: "nat option"

datatype keyValue = KeyName string | KeyNumber nat | KeyUndefined

datatype effect = PreventDefault | NativeClick | DispatchEvent string bool

text \<open>The handler that \<open>createA11yButton\<close> registers. Its first argument says whether
  \<open>typeof element.click === "function"\<close> holds when the event arrives. \<open>DispatchEvent
  ''click'' True\<close> is the dispatch of a mouse event of type click that bubbles.\<close>

definition keydownHandler :: "bool \<Rightarrow> keyboardEvent \<Rightarrow> effect list" where
  "keydownHandler clickIsFunction e =
     (let k = (case key e of
                 Some s \<Rightarrow> KeyName s
               | None \<Rightarrow> (case keyCode e of Some n \<Rightarrow> KeyNumber n | None \<Rightarrow> KeyUndefined))
      in if k = KeyName ''Enter'' \<or> k = KeyNumber 13
            \<or> k \<in> set [KeyName ''Spacebar'', KeyName '' ''] \<or> k = KeyNumber 32
         then PreventDefault #
              (if clickIsFunction then [NativeClick] else [DispatchEvent ''click'' True])
         else [])"

text \<open>An element with what \<open>createA11yButton\<close> touches beside the tree: whether it has a
  \<open>click\<close> method, and its event listeners in the order of registration. Every call of
  \<open>createA11yButton\<close> creates a new function object, so \<open>addEventListener\<close> never finds
  the listener registered already and always appends.\<close>

record htmlElement =
  dom :: node
  clickIsFunction :: bool
  listeners :: "(string \<times> (bool \<Rightarrow> keyboardEvent \<Rightarrow> effect list)) list"

definition addEventListener ::
  "htmlElement \<Rightarrow> string \<Rightarrow> (bool \<Rightarrow> keyboardEvent \<Rightarrow> effect list) \<Rightarrow> htmlElement" where
  "addEventListener element evType handler =
     element\<lparr>listeners := listeners element @ [(evType, handler)]\<rparr>"

definition createA11yButton :: "string option \<Rightarrow> htmlElement \<Rightarrow> htmlElement" where
  "createA11yButton roleOption element =
     (let role = (case roleOption of None \<Rightarrow> ''button'' | Some r \<Rightarrow> r)
      in if tagName (dom element) = ''BUTTON'' then element
         else
           let n1 = (if \<not> truthy (getAttribute (dom element) ''role'')
                     then setAttribute (dom element) ''role'' role else dom element);
               n2 = setAttribute n1 ''tabindex'' ''0''
           in addEventListener (element\<lparr>dom := n2\<rparr>) ''keydown'' keydownHandler)"

text \<open>What happens when an event of a type arrives at the element: its listeners for
  that type run in the order of registration.\<close>

definition fireEvent :: "htmlElement \<Rightarrow> string \<Rightarrow> keyboardEvent \<Rightarrow> effect list" where
  "fireEvent element evType e =
     concat (map (\<lambda>(ty, handler). handler (clickIsFunction element) e)
                 (filter (\<lambda>(ty, handler). ty = evType) (listeners element)))"

text \<open>The activations in a trace: calls of \<open>click\<close> and dispatches of a click event.\<close>

fun isActivation :: "effect \<Rightarrow> bool" where
  "isActivation NativeClick = True"
| "isActivation (DispatchEvent ty bubbles) = (ty = ''click'')"
| "isActivation PreventDefault = False"

definition activations :: "effect list \<Rightarrow> nat" where
  "activations tr = length (filter isActivation tr)"

section \<open>The behaviour that the specification describes\<close>

text \<open>The role that a call configures: the \<open>role\<close> option, \<open>button\<close> when it is not
  given.\<close>

definition configuredRole :: "string option \<Rightarrow> string" where
  "configuredRole roleOption = (case roleOption of None \<Rightarrow> ''button'' | Some r \<Rightarrow> r)"

text \<open>The keys that activate, in the words of the specification: the key name is Enter,
  a space or Spacebar, or there is no key name and the key code is 13 or 32.\<close>

definition activationKey :: "keyboardEvent \<Rightarrow> bool" where
  "activationKey e =
     (key e = Some ''Enter'' \<or> key e = Some '' '' \<or> key e = Some ''Spacebar''
      \<or> (key e = None \<and> (keyCode e = Some 13 \<or> keyCode e = Some 32)))"

text \<open>One activation, in the words of the specification: a call of the native click
  where the element has one, the dispatch of a bubbling click event otherwise.\<close>

definition activation :: "bool \<Rightarrow> effect" where
  "activation hasClick = (if hasClick then NativeClick else DispatchEvent ''click'' True)"

text \<open>
  The clone as the specification describes it: every descendant that carries
  \<open>aria-label\<close> or \<open>aria-labelledby\<close> has its content replaced by its own label. The
  descendants below such an element go with its former content.
\<close>

fun replaceLabelled :: "node \<Rightarrow> node \<Rightarrow> node" where
  "replaceLabelled doc (Element names as cs) =
     (if labelSelector (Element names as cs)
      then Element names as (textChildren (getA11yLabel doc (Element names as cs)))
      else Element names as (map (replaceLabelled doc) cs))"
| "replaceLabelled doc (Text s) = Text s"
| "replaceLabelled doc (Comment s) = Comment s"

text \<open>Names for the parts of the loop in \<open>getA11yLabel\<close>: one assignment, the test of
  the selector on an entry of the list, a path continued below child \<open>i\<close>, and a node
  listed before its descendants.\<close>

definition assignLabel :: "node \<Rightarrow> nat list \<times> node \<Rightarrow> node \<Rightarrow> node" where
  "assignLabel doc = (\<lambda>(p, el) c. setTextContentAt p (getA11yLabel doc el) c)"

definition labelled :: "nat list \<times> node \<Rightarrow> bool" where
  "labelled = (\<lambda>(p, d). isElement d \<and> labelSelector d)"

definition below :: "nat \<Rightarrow> nat list \<times> node \<Rightarrow> nat list \<times> node" where
  "below i = (\<lambda>(p, d). (i # p, d))"

definition inclusiveDescendants :: "node \<Rightarrow> (nat list \<times> node) list" where
  "inclusiveDescendants n = ([], n) # descendants n"

section \<open>Attributes\<close>

lemma getAttribute_setAttribute:
  "getAttribute (setAttribute (Element names as cs) name v) name' =
     (if name' = name then Some v else getAttribute (Element names as cs) name')"
  by (simp add: update_conv')

lemma getAttribute_removeAttribute:
  "getAttribute (removeAttribute (Element names as cs) name) name' =
     (if name' = name then None else getAttribute (Element names as cs) name')"
  by (simp add: delete_conv')

lemma tagName_setAttribute: "tagName (setAttribute e name v) = tagName e"
  by (cases e) simp_all

section \<open>Properties of getA11yLabel\<close>

text \<open>
  Claim C2. An element whose \<open>aria-label\<close> attribute is present and not empty has that
  value as its label, whatever its other attributes, its \<open>aria-labelledby\<close>, its
  descendants and the document are: the value is returned as it is, not trimmed.
\<close>

theorem getA11yLabel_explicit_label:
  "getAttribute element ''aria-label'' = Some v \<Longrightarrow> v \<noteq> [] \<Longrightarrow> getA11yLabel doc element = v"
  by (subst getA11yLabel.simps) simp

theorem getA11yLabel_explicit_label_witness:
  "getA11yLabel (Element (''HTML'', ''html'') [] [Element (''P'', ''p'') [(''id'', ''t'')] [Text ''Title'']])
     (Element (''DIV'', ''div'') [(''aria-labelledby'', ''t''), (''aria-label'', '' Close ''), (''id'', ''b'')]
        [Text ''x'', Element (''SPAN'', ''span'') [(''aria-label'', ''inner'')] []])
   = '' Close ''"
  using getA11yLabel_explicit_label
    [of "Element (''DIV'', ''div'') [(''aria-labelledby'', ''t''), (''aria-label'', '' Close ''), (''id'', ''b'')]
        [Text ''x'', Element (''SPAN'', ''span'') [(''aria-label'', ''inner'')] []]" "'' Close ''"
        "Element (''HTML'', ''html'') [] [Element (''P'', ''p'') [(''id'', ''t'')] [Text ''Title'']]"]
  by simp

text \<open>
  Claim C3. An element without a non-empty \<open>aria-label\<close> whose \<open>aria-labelledby\<close> names an
  id that \<open>getElementById\<close> finds in the document has as its label the trimmed text
  content of the element found: its literal text, not a label resolved for it.
\<close>

theorem getA11yLabel_labelledby:
  "\<not> truthy (getAttribute element ''aria-label'') \<Longrightarrow>
   getAttribute element ''aria-labelledby'' = Some x \<Longrightarrow>
   getElementById doc x = Some r \<Longrightarrow>
   getA11yLabel doc element = trim (textContent r)"
  by (subst getA11yLabel.simps) simp

theorem getA11yLabel_labelledby_witness:
  "getA11yLabel
     (Element (''HTML'', ''html'') []
        [Element (''P'', ''p'') [(''id'', ''x''), (''aria-label'', ''Greeting'')] [Text ''  Hello  '']])
     (Element (''DIV'', ''div'') [(''aria-labelledby'', ''x'')] [Text ''other''])
   = ''Hello''"
proof -
  have r: "getElementById
      (Element (''HTML'', ''html'') []
         [Element (''P'', ''p'') [(''id'', ''x''), (''aria-label'', ''Greeting'')] [Text ''  Hello  '']]) ''x''
      = Some (Element (''P'', ''p'') [(''id'', ''x''), (''aria-label'', ''Greeting'')] [Text ''  Hello  ''])"
    by (simp add: getElementById_def)
  show ?thesis
    using getA11yLabel_labelledby
      [OF _ _ r, of "Element (''DIV'', ''div'') [(''aria-labelledby'', ''x'')] [Text ''other'']"]
    by (simp add: trim_def isWhiteSpace_def)
qed

section \<open>Properties of addIdToElement\<close>

text \<open>
  On an element whose \<open>id\<close> property reflects its attribute, \<open>addIdToElement\<close> does what
  its comment says. An element that has a non-empty id is left as it is. When the
  generated identifier is not empty (\<open>crypto.randomUUID()\<close> returns a string of 36
  characters), the element has a non-empty id after the call, and a second call,
  whatever identifier is generated for it, changes nothing.
\<close>

lemma addIdToElement_reflecting:
  "(truthy (map_of as ''id'') \<longrightarrow>
      addIdToElement False u (Element names as cs) = Element names as cs)
   \<and> (u \<noteq> [] \<longrightarrow>
        truthy (getAttribute (addIdToElement False u (Element names as cs)) ''id'')
      \<and> addIdToElement False u' (addIdToElement False u (Element names as cs))
          = addIdToElement False u (Element names as cs))"
  by (auto simp: addIdToElement_def idProperty_def update_conv' split: option.splits)

lemma addIdToElement_reflecting_example:
  "addIdToElement False ''0c4d8e2f-7a1b-4c9d-8e3f-2a5b6c7d8e9f''
       (addIdToElement False ''9b2e7c1a-5d3f-4e8a-b6c0-1f2a3b4c5d6e''
          (Element (''DIV'', ''div'') [(''class'', ''x'')] []))
     = Element (''DIV'', ''div'')
         [(''class'', ''x''), (''id'', ''9b2e7c1a-5d3f-4e8a-b6c0-1f2a3b4c5d6e'')] []"
  by (simp add: addIdToElement_def idProperty_def)

text \<open>
  Claim C9. The claim has every element leave the call with a non-empty id. A form
  that has no \<open>id\<close> attribute and a control named \<open>id\<close> does not: the guard reads the
  control, which is truthy, and the call returns without assigning an identifier.
\<close>

theorem addIdToElement_form_control_named_id:
  "getAttribute
      (Element (''FORM'', ''form'') [] [Element (''INPUT'', ''input'') [(''name'', ''id'')] []])
      ''id'' = None
   \<and> addIdToElement True ''9b2e7c1a-5d3f-4e8a-b6c0-1f2a3b4c5d6e''
        (Element (''FORM'', ''form'') [] [Element (''INPUT'', ''input'') [(''name'', ''id'')] []])
       = Element (''FORM'', ''form'') [] [Element (''INPUT'', ''input'') [(''name'', ''id'')] []]
   \<and> getAttribute
        (addIdToElement True ''9b2e7c1a-5d3f-4e8a-b6c0-1f2a3b4c5d6e''
           (Element (''FORM'', ''form'') []
              [Element (''INPUT'', ''input'') [(''name'', ''id'')] []]))
        ''id'' = None"
  by (simp add: addIdToElement_def idProperty_def)

section \<open>Properties of createA11yButton\<close>

lemma keydownHandler_activationKey:
  "keydownHandler c e = (if activationKey e then [PreventDefault, activation c] else [])"
  by (auto simp: keydownHandler_def activationKey_def activation_def split: option.splits)

lemma listeners_createA11yButton:
  "tagName (dom element) \<noteq> ''BUTTON'' \<Longrightarrow>
   listeners (createA11yButton roleOption element) =
     listeners element @ [(''keydown'', keydownHandler)]"
  by (simp add: createA11yButton_def addEventListener_def Let_def)

lemma clickIsFunction_createA11yButton:
  "clickIsFunction (createA11yButton roleOption element) = clickIsFunction element"
  by (simp add: createA11yButton_def addEventListener_def Let_def)

lemma tagName_createA11yButton:
  "tagName (dom (createA11yButton roleOption element)) = tagName (dom element)"
  by (simp add: createA11yButton_def addEventListener_def Let_def tagName_setAttribute)

lemma fireEvent_createA11yButton:
  "tagName (dom element) \<noteq> ''BUTTON'' \<Longrightarrow>
   fireEvent (createA11yButton roleOption element) ''keydown'' e =
     fireEvent element ''keydown'' e @ keydownHandler (clickIsFunction element) e"
  by (simp add: fireEvent_def listeners_createA11yButton clickIsFunction_createA11yButton)

lemma activations_append: "activations (xs @ ys) = activations xs + activations ys"
  by (simp add: activations_def)

text \<open>
  Claim C7. A call of \<open>createA11yButton\<close> on an element that is not a native button
  registers one more \<open>keydown\<close> listener, the handler. On an event whose key name is
  Enter, a space or Spacebar, or that has no key name and the key code 13 or 32, the
  handler calls \<open>preventDefault\<close> and then activates once: the native click where the
  element has one, the dispatch of a bubbling click event otherwise. On every other
  event it does nothing. So a key press on the promoted element adds exactly one
  activation to what the listeners registered before produce.
\<close>

theorem createA11yButton_keydown:
  assumes "tagName (dom element) \<noteq> ''BUTTON''"
  shows "listeners (createA11yButton roleOption element) =
           listeners element @ [(''keydown'', keydownHandler)]
       \<and> keydownHandler c e = (if activationKey e then [PreventDefault, activation c] else [])
       \<and> fireEvent (createA11yButton roleOption element) ''keydown'' e =
           fireEvent element ''keydown'' e @
           (if activationKey e then [PreventDefault, activation (clickIsFunction element)]
            else [])
       \<and> activations (fireEvent (createA11yButton roleOption element) ''keydown'' e) =
           activations (fireEvent element ''keydown'' e) + (if activationKey e then 1 else 0)"
proof -
  have a: "activations [PreventDefault, activation (clickIsFunction element)] = 1"
    by (simp add: activations_def activation_def)
  have f: "fireEvent (createA11yButton roleOption element) ''keydown'' e =
           fireEvent element ''keydown'' e @
           (if activationKey e then [PreventDefault, activation (clickIsFunction element)]
            else [])"
    using assms by (simp add: fireEvent_createA11yButton keydownHandler_activationKey)
  have n: "activations (fireEvent (createA11yButton roleOption element) ''keydown'' e) =
           activations (fireEvent element ''keydown'' e) + (if activationKey e then 1 else 0)"
    using a by (simp add: f activations_append) (simp add: activations_def)
  from assms f n show ?thesis
    by (simp add: listeners_createA11yButton keydownHandler_activationKey)
qed

theorem createA11yButton_keydown_witness:
  "fireEvent
     (createA11yButton None
        \<lparr>dom = Element (''DIV'', ''div'') [] [Text ''Open''], clickIsFunction = True, listeners = []\<rparr>)
     ''keydown'' \<lparr>key = Some ''Enter'', keyCode = Some 13\<rparr>
     = [PreventDefault, NativeClick]
   \<and> fireEvent
     (createA11yButton None
        \<lparr>dom = Element (''DIV'', ''div'') [] [Text ''Open''], clickIsFunction = False, listeners = []\<rparr>)
     ''keydown'' \<lparr>key = None, keyCode = Some 32\<rparr>
     = [PreventDefault, DispatchEvent ''click'' True]
   \<and> fireEvent
     (createA11yButton None
        \<lparr>dom = Element (''DIV'', ''div'') [] [Text ''Open''], clickIsFunction = True, listeners = []\<rparr>)
     ''keydown'' \<lparr>key = Some ''a'', keyCode = Some 13\<rparr>
     = []"
  using createA11yButton_keydown
      [of "\<lparr>dom = Element (''DIV'', ''div'') [] [Text ''Open''], clickIsFunction = True, listeners = []\<rparr>"
          None True "\<lparr>key = Some ''Enter'', keyCode = Some 13\<rparr>"]
    createA11yButton_keydown
      [of "\<lparr>dom = Element (''DIV'', ''div'') [] [Text ''Open''], clickIsFunction = False, listeners = []\<rparr>"
          None True "\<lparr>key = None, keyCode = Some 32\<rparr>"]
    createA11yButton_keydown
      [of "\<lparr>dom = Element (''DIV'', ''div'') [] [Text ''Open''], clickIsFunction = True, listeners = []\<rparr>"
          None True "\<lparr>key = Some ''a'', keyCode = Some 13\<rparr>"]
  by (simp add: activationKey_def activation_def fireEvent_def keydownHandler_def
        createA11yButton_def addEventListener_def activations_def)

text \<open>
  Claim C8, as the code has it. On a native button the call changes nothing and
  registers nothing. On any other element the role attribute is set to the configured
  role (\<open>button\<close> by default) when it is absent or empty, and a role that is not empty is
  kept; \<open>tabindex\<close> is \<open>0\<close> after the call; no other attribute, the names and the
  children do not change.
\<close>

theorem createA11yButton_attributes:
  "(tagName (dom element) = ''BUTTON'' \<longrightarrow> createA11yButton roleOption element = element)
   \<and> (dom element = Element names as cs \<and> fst names \<noteq> ''BUTTON'' \<longrightarrow>
        getAttribute (dom (createA11yButton roleOption element)) ''role''
          = (if truthy (map_of as ''role'') then map_of as ''role''
             else Some (configuredRole roleOption))
      \<and> getAttribute (dom (createA11yButton roleOption element)) ''tabindex'' = Some ''0''
      \<and> (\<forall>name. name \<noteq> ''role'' \<and> name \<noteq> ''tabindex'' \<longrightarrow>
            getAttribute (dom (createA11yButton roleOption element)) name = map_of as name)
      \<and> tagName (dom (createA11yButton roleOption element)) = fst names
      \<and> localName (dom (createA11yButton roleOption element)) = snd names
      \<and> childNodes (dom (createA11yButton roleOption element)) = cs)"
  by (auto simp: createA11yButton_def addEventListener_def Let_def update_conv' configuredRole_def
        split: option.splits)

theorem createA11yButton_attributes_witness:
  "createA11yButton None
      \<lparr>dom = Element (''BUTTON'', ''button'') [] [Text ''Go''], clickIsFunction = True, listeners = []\<rparr>
     = \<lparr>dom = Element (''BUTTON'', ''button'') [] [Text ''Go''], clickIsFunction = True, listeners = []\<rparr>
   \<and> getAttribute (dom (createA11yButton None
        \<lparr>dom = Element (''DIV'', ''div'') [] [], clickIsFunction = True, listeners = []\<rparr>)) ''role''
       = Some ''button''
   \<and> getAttribute (dom (createA11yButton None
        \<lparr>dom = Element (''DIV'', ''div'') [] [], clickIsFunction = True, listeners = []\<rparr>)) ''tabindex''
       = Some ''0''
   \<and> getAttribute (dom (createA11yButton None
        \<lparr>dom = Element (''DIV'', ''div'') [(''role'', ''link'')] [], clickIsFunction = True, listeners = []\<rparr>))
        ''role''
       = Some ''link''"
  using createA11yButton_attributes
      [of "\<lparr>dom = Element (''BUTTON'', ''button'') [] [Text ''Go''], clickIsFunction = True, listeners = []\<rparr>"
          None]
    createA11yButton_attributes
      [of "\<lparr>dom = Element (''DIV'', ''div'') [] [], clickIsFunction = True, listeners = []\<rparr>"
          None "(''DIV'', ''div'')" "[]" "[]"]
    createA11yButton_attributes
      [of "\<lparr>dom = Element (''DIV'', ''div'') [(''role'', ''link'')] [], clickIsFunction = True, listeners = []\<rparr>"
          None "(''DIV'', ''div'')" "[(''role'', ''link'')]" "[]"]
  by (simp add: configuredRole_def)

text \<open>
  Claim C8 as it is stated fails where the role attribute is present and empty: the
  attribute exists before the call, and the call overrides it.
\<close>

theorem createA11yButton_empty_role_overridden:
  "getAttribute (Element (''DIV'', ''div'') [(''role'', [])] []) ''role'' = Some []
   \<and> getAttribute (dom (createA11yButton None
        \<lparr>dom = Element (''DIV'', ''div'') [(''role'', [])] [], clickIsFunction = True, listeners = []\<rparr>))
        ''role''
       = Some ''button''"
  by (simp add: createA11yButton_def addEventListener_def)

text \<open>
  Claim C10, as the code has it. Two calls of \<open>createA11yButton\<close> on an element that is
  not a native button register two \<open>keydown\<close> listeners, and a key press runs the handler
  twice: on an activating key the element is activated two times more than by the
  listeners it had before. The second call skips the role assignment exactly when a
  non-empty role is present after the first call, and then leaves the attributes as the
  first call left them; otherwise it assigns the role it configures. A non-empty role is
  present after the first call exactly when the element had one or the first call
  configured one.
\<close>

theorem createA11yButton_twice:
  assumes "tagName (dom element) \<noteq> ''BUTTON''"
  shows "listeners (createA11yButton r2 (createA11yButton r1 element)) =
           listeners element @ [(''keydown'', keydownHandler), (''keydown'', keydownHandler)]
       \<and> fireEvent (createA11yButton r2 (createA11yButton r1 element)) ''keydown'' e =
           fireEvent element ''keydown'' e
           @ keydownHandler (clickIsFunction element) e
           @ keydownHandler (clickIsFunction element) e
       \<and> (activationKey e \<longrightarrow>
            activations (fireEvent (createA11yButton r2 (createA11yButton r1 element))
                           ''keydown'' e) =
            activations (fireEvent element ''keydown'' e) + 2)
       \<and> dom (createA11yButton r2 (createA11yButton r1 element)) =
            (if truthy (getAttribute (dom (createA11yButton r1 element)) ''role'')
             then dom (createA11yButton r1 element)
             else setAttribute (dom (createA11yButton r1 element)) ''role'' (configuredRole r2))
       \<and> (\<forall>names as cs. dom element = Element names as cs \<longrightarrow>
            truthy (getAttribute (dom (createA11yButton r1 element)) ''role'') =
            (truthy (map_of as ''role'') \<or> configuredRole r1 \<noteq> []))"
proof -
  from assms have t1: "tagName (dom (createA11yButton r1 element)) \<noteq> ''BUTTON''"
    by (simp add: tagName_createA11yButton)
  have l: "listeners (createA11yButton r2 (createA11yButton r1 element)) =
           listeners element @ [(''keydown'', keydownHandler), (''keydown'', keydownHandler)]"
    by (simp add: listeners_createA11yButton [OF t1] listeners_createA11yButton [OF assms])
  have f: "fireEvent (createA11yButton r2 (createA11yButton r1 element)) ''keydown'' e =
           fireEvent element ''keydown'' e
           @ keydownHandler (clickIsFunction element) e
           @ keydownHandler (clickIsFunction element) e"
    by (simp add: fireEvent_createA11yButton [OF t1] fireEvent_createA11yButton [OF assms]
          clickIsFunction_createA11yButton)
  have a: "activationKey e \<longrightarrow>
            activations (fireEvent (createA11yButton r2 (createA11yButton r1 element))
                           ''keydown'' e) =
            activations (fireEvent element ''keydown'' e) + 2"
    by (simp add: f keydownHandler_activationKey activations_def activation_def)
  have d: "dom (createA11yButton r2 (createA11yButton r1 element)) =
            (if truthy (getAttribute (dom (createA11yButton r1 element)) ''role'')
             then dom (createA11yButton r1 element)
             else setAttribute (dom (createA11yButton r1 element)) ''role'' (configuredRole r2))"
  proof (cases "dom element")
    case (Element names as cs)
    have tab: "AList.update ''tabindex'' ''0'' (AList.update ''role'' r xs)
        = AList.update ''role'' r xs"
      if "map_of xs ''tabindex'' = Some ''0''" for r xs
      by (rule update_triv) (simp add: update_conv' that)
    from assms Element show ?thesis
      by (auto simp: createA11yButton_def addEventListener_def Let_def update_conv' update_last
            configuredRole_def tab split: option.splits)
  next
    case (Text s)
    then show ?thesis by (simp add: createA11yButton_def addEventListener_def Let_def)
  next
    case (Comment s)
    then show ?thesis by (simp add: createA11yButton_def addEventListener_def Let_def)
  qed
  have p: "\<forall>names as cs. dom element = Element names as cs \<longrightarrow>
            truthy (getAttribute (dom (createA11yButton r1 element)) ''role'') =
            (truthy (map_of as ''role'') \<or> configuredRole r1 \<noteq> [])"
    using assms
    by (auto simp: createA11yButton_def addEventListener_def Let_def update_conv'
          configuredRole_def split: option.splits)
  from l f a d p show ?thesis by blast
qed

theorem createA11yButton_twice_witness:
  "fireEvent
     (createA11yButton None (createA11yButton None
        \<lparr>dom = Element (''DIV'', ''div'') [] [Text ''Open''], clickIsFunction = True, listeners = []\<rparr>))
     ''keydown'' \<lparr>key = Some ''Enter'', keyCode = Some 13\<rparr>
     = [PreventDefault, NativeClick, PreventDefault, NativeClick]
   \<and> activations (fireEvent
     (createA11yButton None (createA11yButton None
        \<lparr>dom = Element (''DIV'', ''div'') [] [Text ''Open''], clickIsFunction = True, listeners = []\<rparr>))
     ''keydown'' \<lparr>key = Some ''Enter'', keyCode = Some 13\<rparr>) = 2
   \<and> dom (createA11yButton None (createA11yButton None
        \<lparr>dom = Element (''DIV'', ''div'') [] [Text ''Open''], clickIsFunction = True, listeners = []\<rparr>))
     = Element (''DIV'', ''div'') [(''role'', ''button''), (''tabindex'', ''0'')] [Text ''Open'']"
  using createA11yButton_twice
      [of "\<lparr>dom = Element (''DIV'', ''div'') [] [Text ''Open''], clickIsFunction = True, listeners = []\<rparr>"
          None None "\<lparr>key = Some ''Enter'', keyCode = Some 13\<rparr>"]
  by (simp add: activationKey_def fireEvent_def keydownHandler_def activations_def
        createA11yButton_def addEventListener_def)

text \<open>
  Claim C10 as it is stated fails where the first call configures an empty role on an
  element without a role: no role is present after it, and the second call does assign
  one.
\<close>

theorem createA11yButton_second_call_assigns_role:
  "getAttribute (dom (createA11yButton (Some [])
        \<lparr>dom = Element (''DIV'', ''div'') [] [], clickIsFunction = True, listeners = []\<rparr>))
        ''role''
       = Some []
   \<and> getAttribute (dom (createA11yButton None (createA11yButton (Some [])
        \<lparr>dom = Element (''DIV'', ''div'') [] [], clickIsFunction = True, listeners = []\<rparr>)))
        ''role''
       = Some ''button''"
  by (simp add: createA11yButton_def addEventListener_def)

section \<open>Termination of getA11yLabel\<close>

lemma getA11yLabel_rel_smaller:
  assumes "getA11yLabel_rel (d, e) (doc, element)"
  shows "d = doc \<and> e \<in> snd ` set (descendants element) \<and> size e < size element"
  using assms
  by (cases rule: getA11yLabel_rel.cases)
     (force simp: querySelectorAll_def cloneNode_def dest: size_descendants_less)

text \<open>
  Claim C5. \<open>getA11yLabel\<close> terminates for every document and every element: every pair
  of arguments is in the domain of the recursion. Each recursive call is made with the
  same document on a descendant of the (cloned) element, which is smaller than the
  element. What \<open>aria-labelledby\<close> attributes point at plays no part: an element found
  through \<open>getElementById\<close> gives its text content and is not resolved further.
\<close>

theorem getA11yLabel_terminates:
  "getA11yLabel_dom (doc, element)
   \<and> (\<forall>d e. getA11yLabel_rel (d, e) (doc, element) \<longrightarrow>
          d = doc \<and> e \<in> snd ` set (descendants element) \<and> size e < size element)"
proof -
  have "getA11yLabel_dom (doc, element)"
  proof (induction "size element" arbitrary: element rule: less_induct)
    case less
    show ?case
    proof (rule accp.accI)
      fix y
      assume y: "getA11yLabel_rel y (doc, element)"
      obtain d e where de: "y = (d, e)" by (cases y)
      with y have "d = doc" and "size e < size element"
        using getA11yLabel_rel_smaller [of d e doc element] by simp_all
      with less de show "getA11yLabel_dom y" by simp
    qed
  qed
  then show ?thesis
    using getA11yLabel_rel_smaller [of _ _ doc element] by blast
qed

text \<open>The witness: a descendant labelled by its own ancestor. The call on the ancestor
  makes one recursive call, on the descendant.\<close>

theorem getA11yLabel_terminates_witness:
  "getA11yLabel_dom
     (Element (''HTML'', ''html'') [] [Element (''DIV'', ''div'') [(''id'', ''a'')]
        [Element (''SPAN'', ''span'') [(''aria-labelledby'', ''a'')] [Text ''x'']]],
      Element (''DIV'', ''div'') [(''id'', ''a'')] [Element (''SPAN'', ''span'') [(''aria-labelledby'', ''a'')] [Text ''x'']])
   \<and> getA11yLabel_rel
     (Element (''HTML'', ''html'') [] [Element (''DIV'', ''div'') [(''id'', ''a'')]
        [Element (''SPAN'', ''span'') [(''aria-labelledby'', ''a'')] [Text ''x'']]],
      Element (''SPAN'', ''span'') [(''aria-labelledby'', ''a'')] [Text ''x''])
     (Element (''HTML'', ''html'') [] [Element (''DIV'', ''div'') [(''id'', ''a'')]
        [Element (''SPAN'', ''span'') [(''aria-labelledby'', ''a'')] [Text ''x'']]],
      Element (''DIV'', ''div'') [(''id'', ''a'')] [Element (''SPAN'', ''span'') [(''aria-labelledby'', ''a'')] [Text ''x'']])
   \<and> size (Element (''SPAN'', ''span'') [(''aria-labelledby'', ''a'')] [Text ''x''])
       < size (Element (''DIV'', ''div'') [(''id'', ''a'')]
                 [Element (''SPAN'', ''span'') [(''aria-labelledby'', ''a'')] [Text ''x'']])"
proof -
  have r: "getA11yLabel_rel
     (Element (''HTML'', ''html'') [] [Element (''DIV'', ''div'') [(''id'', ''a'')]
        [Element (''SPAN'', ''span'') [(''aria-labelledby'', ''a'')] [Text ''x'']]],
      Element (''SPAN'', ''span'') [(''aria-labelledby'', ''a'')] [Text ''x''])
     (Element (''HTML'', ''html'') [] [Element (''DIV'', ''div'') [(''id'', ''a'')]
        [Element (''SPAN'', ''span'') [(''aria-labelledby'', ''a'')] [Text ''x'']]],
      Element (''DIV'', ''div'') [(''id'', ''a'')] [Element (''SPAN'', ''span'') [(''aria-labelledby'', ''a'')] [Text ''x'']])"
    by (rule getA11yLabel_rel.intros [OF _ refl refl _ refl _ refl, where xd = "[0]"])
       (simp_all add: getElementById_def querySelectorAll_def cloneNode_def labelSelector_def)
  show ?thesis
    using r getA11yLabel_terminates
      [of "Element (''HTML'', ''html'') [] [Element (''DIV'', ''div'') [(''id'', ''a'')]
        [Element (''SPAN'', ''span'') [(''aria-labelledby'', ''a'')] [Text ''x'']]]"
       "Element (''DIV'', ''div'') [(''id'', ''a'')]
          [Element (''SPAN'', ''span'') [(''aria-labelledby'', ''a'')] [Text ''x'']]"]
    by blast
qed

section \<open>Properties of setModalA11yAttributes\<close>

lemma getFirstHeadline_children:
  "getFirstHeadline (Element names as cs) = getFirstHeadline (Element names' as' cs)"
  by (simp add: getFirstHeadline_def querySelectorAll_def)

lemma getFirstHeadline_setAttribute:
  "getFirstHeadline (setAttribute e name v) = getFirstHeadline e"
  by (cases e) (simp_all add: getFirstHeadline_children [of _ "AList.update name v _"])

lemma getFirstHeadline_truthy: "getFirstHeadline c = Some h \<Longrightarrow> h \<noteq> []"
  by (auto simp: getFirstHeadline_def Let_def find_Some_iff split: option.splits)

text \<open>
  Claim C6. For an element with an \<open>aria-labelledby\<close> attribute, the normalizer does the
  following. When \<open>getElementById\<close> finds the referenced id, the element's \<open>aria-label\<close>
  becomes the trimmed text content of the element found and \<open>aria-labelledby\<close> is
  removed; nothing else changes. When the id is not found, the element is returned as
  it was. \<open>setModalA11yAttributes\<close> reaches the normalizer, after the role and
  \<open>aria-modal\<close> are set, whenever \<open>aria-labelledby\<close> is not empty.
\<close>

theorem replaceAriaLabelledByWithAriaLabel_effect:
  assumes "map_of as ''aria-labelledby'' = Some x"
  shows "(getElementById doc x = Some r \<longrightarrow>
            getAttribute (replaceAriaLabelledByWithAriaLabel doc (Element names as cs)) ''aria-label''
              = Some (trim (textContent r))
          \<and> getAttribute (replaceAriaLabelledByWithAriaLabel doc (Element names as cs))
              ''aria-labelledby'' = None
          \<and> (\<forall>name. name \<noteq> ''aria-label'' \<and> name \<noteq> ''aria-labelledby'' \<longrightarrow>
                getAttribute (replaceAriaLabelledByWithAriaLabel doc (Element names as cs)) name
                  = map_of as name)
          \<and> tagName (replaceAriaLabelledByWithAriaLabel doc (Element names as cs)) = fst names
          \<and> localName (replaceAriaLabelledByWithAriaLabel doc (Element names as cs)) = snd names
          \<and> childNodes (replaceAriaLabelledByWithAriaLabel doc (Element names as cs)) = cs)
       \<and> (getElementById doc x = None \<longrightarrow>
            replaceAriaLabelledByWithAriaLabel doc (Element names as cs) = Element names as cs)
       \<and> (x \<noteq> [] \<longrightarrow>
            setModalA11yAttributes doc (Element names as cs) =
              replaceAriaLabelledByWithAriaLabel doc
                (setAttribute
                   (if truthy (map_of as ''role'') then Element names as cs
                    else setAttribute (Element names as cs) ''role'' ''dialog'')
                   ''aria-modal'' ''true''))"
  using assms
  by (auto simp: replaceAriaLabelledByWithAriaLabel_def setModalA11yAttributes_def Let_def
        update_conv' delete_conv')

theorem replaceAriaLabelledByWithAriaLabel_effect_witness:
  "setModalA11yAttributes
     (Element (''HTML'', ''html'') [] [Element (''P'', ''p'') [(''id'', ''t'')] [Text '' Title '']])
     (Element (''DIV'', ''div'') [(''aria-labelledby'', ''t'')] [Text ''body''])
     = Element (''DIV'', ''div'') [(''role'', ''dialog''), (''aria-modal'', ''true''), (''aria-label'', ''Title'')]
         [Text ''body'']
   \<and> replaceAriaLabelledByWithAriaLabel
     (Element (''HTML'', ''html'') [] [Element (''P'', ''p'') [(''id'', ''t'')] [Text '' Title '']])
     (Element (''DIV'', ''div'') [(''aria-labelledby'', ''missing'')] [Text ''body''])
     = Element (''DIV'', ''div'') [(''aria-labelledby'', ''missing'')] [Text ''body'']"
proof -
  have r: "getElementById
       (Element (''HTML'', ''html'') [] [Element (''P'', ''p'') [(''id'', ''t'')] [Text '' Title '']]) ''t''
     = Some (Element (''P'', ''p'') [(''id'', ''t'')] [Text '' Title ''])"
    by (simp add: getElementById_def)
  have n: "getElementById
       (Element (''HTML'', ''html'') [] [Element (''P'', ''p'') [(''id'', ''t'')] [Text '' Title '']]) ''missing''
     = None"
    by (simp add: getElementById_def)
  show ?thesis
    using r n
      replaceAriaLabelledByWithAriaLabel_effect
        [of "[(''aria-labelledby'', ''t'')]" "''t''"
            "Element (''HTML'', ''html'') [] [Element (''P'', ''p'') [(''id'', ''t'')] [Text '' Title '']]"
            "Element (''P'', ''p'') [(''id'', ''t'')] [Text '' Title '']" "(''DIV'', ''div'')" "[Text ''body'']"]
      replaceAriaLabelledByWithAriaLabel_effect
        [of "[(''aria-labelledby'', ''missing'')]" "''missing''"
            "Element (''HTML'', ''html'') [] [Element (''P'', ''p'') [(''id'', ''t'')] [Text '' Title '']]"
            "Element (''P'', ''p'') [(''id'', ''t'')] [Text '' Title '']" "(''DIV'', ''div'')" "[Text ''body'']"]
    by (simp add: replaceAriaLabelledByWithAriaLabel_def trim_def isWhiteSpace_def)
qed

lemma modal_aria_modal:
  "getAttribute (setModalA11yAttributes doc (Element names as cs)) ''aria-modal'' = Some ''true''"
  by (auto simp: setModalA11yAttributes_def replaceAriaLabelledByWithAriaLabel_def Let_def
        update_conv' delete_conv' split: option.splits)

lemma modal_role:
  "getAttribute (setModalA11yAttributes doc (Element names as cs)) ''role''
       = (if truthy (map_of as ''role'') then map_of as ''role'' else Some ''dialog'')"
  by (auto simp: setModalA11yAttributes_def replaceAriaLabelledByWithAriaLabel_def Let_def
        update_conv' delete_conv' split: option.splits)

lemma modal_labelledby:
  "map_of as ''aria-labelledby'' = Some x \<Longrightarrow> x \<noteq> [] \<Longrightarrow> getElementById doc x = Some r \<Longrightarrow>
         getAttribute (setModalA11yAttributes doc (Element names as cs)) ''aria-label''
           = Some (trim (textContent r))
       \<and> getAttribute (setModalA11yAttributes doc (Element names as cs)) ''aria-labelledby'' = None"
  by (auto simp: setModalA11yAttributes_def replaceAriaLabelledByWithAriaLabel_def Let_def
        update_conv' delete_conv' split: option.splits)

lemma modal_headline:
  "\<not> truthy (map_of as ''aria-label'') \<Longrightarrow> \<not> truthy (map_of as ''aria-labelledby'') \<Longrightarrow>
   getFirstHeadline (Element names as cs) = Some h \<Longrightarrow>
         getAttribute (setModalA11yAttributes doc (Element names as cs)) ''aria-label'' = Some h
       \<and> getAttribute (setModalA11yAttributes doc (Element names as cs)) ''aria-labelledby''
           = map_of as ''aria-labelledby''"
  using getFirstHeadline_truthy [of "Element names as cs" h]
  by (auto simp: setModalA11yAttributes_def Let_def getFirstHeadline_setAttribute
        getFirstHeadline_children [of names "AList.update _ _ _" cs names as]
        update_conv' delete_conv' split: option.splits)

lemma modal_labels_kept:
  assumes "\<forall>x. map_of as ''aria-labelledby'' = Some x \<and> x \<noteq> [] \<longrightarrow> getElementById doc x = None"
    and "truthy (map_of as ''aria-label'') \<or> truthy (map_of as ''aria-labelledby'')
         \<or> getFirstHeadline (Element names as cs) = None"
  shows "getAttribute (setModalA11yAttributes doc (Element names as cs)) ''aria-label''
           = map_of as ''aria-label''
       \<and> getAttribute (setModalA11yAttributes doc (Element names as cs)) ''aria-labelledby''
           = map_of as ''aria-labelledby''"
proof (cases "map_of as ''aria-labelledby''")
  case None
  with assms show ?thesis
    by (auto simp: setModalA11yAttributes_def Let_def getFirstHeadline_setAttribute
          getFirstHeadline_children [of names "AList.update _ _ _" cs names as]
          update_conv' split: option.splits)
next
  case (Some x)
  with assms show ?thesis
    by (cases "x = []")
       (auto simp: setModalA11yAttributes_def replaceAriaLabelledByWithAriaLabel_def Let_def
          getFirstHeadline_setAttribute
          getFirstHeadline_children [of names "AList.update _ _ _" cs names as]
          update_conv' split: option.splits)
qed

lemma modal_other_attributes:
  "name \<noteq> ''role'' \<Longrightarrow> name \<noteq> ''aria-modal'' \<Longrightarrow> name \<noteq> ''aria-label'' \<Longrightarrow>
   name \<noteq> ''aria-labelledby'' \<Longrightarrow>
   getAttribute (setModalA11yAttributes doc (Element names as cs)) name = map_of as name"
  by (auto simp: setModalA11yAttributes_def replaceAriaLabelledByWithAriaLabel_def Let_def
        update_conv' delete_conv' split: option.splits)

lemma modal_names_children:
  "tagName (setModalA11yAttributes doc (Element names as cs)) = fst names
   \<and> localName (setModalA11yAttributes doc (Element names as cs)) = snd names
   \<and> childNodes (setModalA11yAttributes doc (Element names as cs)) = cs"
  by (auto simp: setModalA11yAttributes_def replaceAriaLabelledByWithAriaLabel_def Let_def
        split: option.splits)

text \<open>
  Claim C1, as the code has it. After the call the element has \<open>aria-modal\<close> \<open>true\<close> and
  a role: \<open>dialog\<close> when the role was absent or empty, the role it had otherwise. The two
  label attributes are settled by three cases that exclude each other and leave no
  other. Where \<open>aria-labelledby\<close> is not empty and resolves, \<open>aria-label\<close> becomes the
  trimmed text of the element found, also when the element had an \<open>aria-label\<close> of its
  own, and \<open>aria-labelledby\<close> is removed. Where both \<open>aria-label\<close> and \<open>aria-labelledby\<close>
  are absent or empty and there is a heading with text, the first such heading becomes
  the \<open>aria-label\<close>. In every other case, so with a non-empty \<open>aria-label\<close> and no
  resolving reference, with a non-empty reference that does not resolve, or with no
  heading, both attributes stay as they were. No other attribute, the names and the
  children do not change.
\<close>

theorem setModalA11yAttributes_effect:
  "getAttribute (setModalA11yAttributes doc (Element names as cs)) ''aria-modal'' = Some ''true''
   \<and> getAttribute (setModalA11yAttributes doc (Element names as cs)) ''role''
       = (if truthy (map_of as ''role'') then map_of as ''role'' else Some ''dialog'')
   \<and> (\<forall>x r. map_of as ''aria-labelledby'' = Some x \<and> x \<noteq> [] \<and> getElementById doc x = Some r \<longrightarrow>
         getAttribute (setModalA11yAttributes doc (Element names as cs)) ''aria-label''
           = Some (trim (textContent r))
       \<and> getAttribute (setModalA11yAttributes doc (Element names as cs)) ''aria-labelledby'' = None)
   \<and> (\<forall>h. \<not> truthy (map_of as ''aria-label'') \<and> \<not> truthy (map_of as ''aria-labelledby'')
          \<and> getFirstHeadline (Element names as cs) = Some h \<longrightarrow>
         getAttribute (setModalA11yAttributes doc (Element names as cs)) ''aria-label'' = Some h
       \<and> getAttribute (setModalA11yAttributes doc (Element names as cs)) ''aria-labelledby''
           = map_of as ''aria-labelledby'')
   \<and> ((\<forall>x. map_of as ''aria-labelledby'' = Some x \<and> x \<noteq> [] \<longrightarrow> getElementById doc x = None)
       \<and> (truthy (map_of as ''aria-label'') \<or> truthy (map_of as ''aria-labelledby'')
          \<or> getFirstHeadline (Element names as cs) = None) \<longrightarrow>
         getAttribute (setModalA11yAttributes doc (Element names as cs)) ''aria-label''
           = map_of as ''aria-label''
       \<and> getAttribute (setModalA11yAttributes doc (Element names as cs)) ''aria-labelledby''
           = map_of as ''aria-labelledby'')
   \<and> (\<forall>name. name \<noteq> ''role'' \<and> name \<noteq> ''aria-modal'' \<and> name \<noteq> ''aria-label''
          \<and> name \<noteq> ''aria-labelledby'' \<longrightarrow>
         getAttribute (setModalA11yAttributes doc (Element names as cs)) name = map_of as name)
   \<and> tagName (setModalA11yAttributes doc (Element names as cs)) = fst names
   \<and> localName (setModalA11yAttributes doc (Element names as cs)) = snd names
   \<and> childNodes (setModalA11yAttributes doc (Element names as cs)) = cs"
  using modal_aria_modal [of doc names as cs] modal_role [of doc names as cs]
    modal_labelledby [of as _ doc _ names cs] modal_headline [of as names cs _ doc]
    modal_labels_kept [of as doc names cs] modal_other_attributes [of _ doc names as cs]
    modal_names_children [of doc names as cs]
  by blast

text \<open>The witness has one element for each of the three cases, and for the third also an
  element whose reference does not resolve: its heading is not taken.\<close>

theorem setModalA11yAttributes_effect_witness:
  "getAttribute (setModalA11yAttributes (Element (''HTML'', ''html'') [] [])
      (Element (''DIV'', ''div'') [] [Element (''H2'', ''h2'') [] [Text ''Settings'']])) ''aria-label''
     = Some ''Settings''
   \<and> getAttribute (setModalA11yAttributes (Element (''HTML'', ''html'') [] [])
      (Element (''DIV'', ''div'') [(''aria-label'', ''Preferences'')]
         [Element (''H2'', ''h2'') [] [Text ''Settings'']]))
      ''aria-label'' = Some ''Preferences''
   \<and> getAttribute (setModalA11yAttributes (Element (''HTML'', ''html'') [] [])
      (Element (''DIV'', ''div'') [(''aria-labelledby'', ''missing'')]
         [Element (''H2'', ''h2'') [] [Text ''Settings'']]))
      ''aria-label'' = None
   \<and> getAttribute (setModalA11yAttributes
        (Element (''HTML'', ''html'') [] [Element (''P'', ''p'') [(''id'', ''t'')] [Text '' Title '']])
        (Element (''DIV'', ''div'') [(''aria-labelledby'', ''t'')] [])) ''aria-label''
     = Some ''Title''"
proof -
  have h: "getFirstHeadline
       (Element (''DIV'', ''div'') [] [Element (''H2'', ''h2'') [] [Text ''Settings'']])
     = Some ''Settings''"
    by (simp add: getFirstHeadline_def querySelectorAll_def headlineSelector_def trim_def
          isWhiteSpace_def)
  have n: "getElementById (Element (''HTML'', ''html'') [] []) ''missing'' = None"
    by (simp add: getElementById_def)
  have r: "getElementById
       (Element (''HTML'', ''html'') [] [Element (''P'', ''p'') [(''id'', ''t'')] [Text '' Title '']])
       ''t''
     = Some (Element (''P'', ''p'') [(''id'', ''t'')] [Text '' Title ''])"
    by (simp add: getElementById_def)
  show ?thesis
    using h n r
      setModalA11yAttributes_effect
        [of "Element (''HTML'', ''html'') [] []" "(''DIV'', ''div'')" "[]"
            "[Element (''H2'', ''h2'') [] [Text ''Settings'']]"]
      setModalA11yAttributes_effect
        [of "Element (''HTML'', ''html'') [] []" "(''DIV'', ''div'')"
            "[(''aria-label'', ''Preferences'')]"
            "[Element (''H2'', ''h2'') [] [Text ''Settings'']]"]
      setModalA11yAttributes_effect
        [of "Element (''HTML'', ''html'') [] []" "(''DIV'', ''div'')"
            "[(''aria-labelledby'', ''missing'')]"
            "[Element (''H2'', ''h2'') [] [Text ''Settings'']]"]
      setModalA11yAttributes_effect
        [of "Element (''HTML'', ''html'') []
               [Element (''P'', ''p'') [(''id'', ''t'')] [Text '' Title '']]"
            "(''DIV'', ''div'')" "[(''aria-labelledby'', ''t'')]" "[]"]
    by (simp add: trim_def isWhiteSpace_def)
qed

text \<open>
  Claim C1 as it is stated fails on an element that has a non-empty \<open>aria-label\<close> and an
  \<open>aria-labelledby\<close> that resolves: the explicit label is replaced by the text of the
  referenced element. A role attribute that is present and empty is changed as well.
\<close>

theorem setModalA11yAttributes_label_overwritten:
  "getAttribute
      (Element (''DIV'', ''div'') [(''role'', []), (''aria-label'', ''Explicit''), (''aria-labelledby'', ''t'')] [])
      ''aria-label'' = Some ''Explicit''
   \<and> getAttribute (setModalA11yAttributes
        (Element (''HTML'', ''html'') [] [Element (''P'', ''p'') [(''id'', ''t'')] [Text ''Title'']])
        (Element (''DIV'', ''div'') [(''role'', []), (''aria-label'', ''Explicit''), (''aria-labelledby'', ''t'')] []))
      ''aria-label'' = Some ''Title''
   \<and> getAttribute
      (Element (''DIV'', ''div'') [(''role'', []), (''aria-label'', ''Explicit''), (''aria-labelledby'', ''t'')] [])
      ''role'' = Some []
   \<and> getAttribute (setModalA11yAttributes
        (Element (''HTML'', ''html'') [] [Element (''P'', ''p'') [(''id'', ''t'')] [Text ''Title'']])
        (Element (''DIV'', ''div'') [(''role'', []), (''aria-label'', ''Explicit''), (''aria-labelledby'', ''t'')] []))
      ''role'' = Some ''dialog''"
  by (simp add: setModalA11yAttributes_def replaceAriaLabelledByWithAriaLabel_def getElementById_def
        getFirstHeadline_def querySelectorAll_def trim_def isWhiteSpace_def)

section \<open>The label of an element without a label of its own\<close>

lemma descendants_nonempty_path: "(p, d) \<in> set (descendants n) \<Longrightarrow> p \<noteq> []"
  by (cases n) auto

lemma descendants_below:
  "descendants (Element names as cs) =
     concat (map (\<lambda>(i, c). map (below i) (inclusiveDescendants c)) (enumerate 0 cs))"
  by (simp add: below_def inclusiveDescendants_def)

lemma filter_labelled_below:
  "filter labelled (map (below i) L) = map (below i) (filter labelled L)"
  by (induction L) (auto simp: labelled_def below_def)

text \<open>Assignments below child \<open>i\<close> change that child only.\<close>

lemma fold_assignLabel_below:
  "i < length cs \<Longrightarrow>
   fold (assignLabel doc) (map (below i) L) (Element names as cs) =
     Element names as (cs[i := fold (assignLabel doc) L (cs ! i)])"
proof (induction L arbitrary: cs)
  case Nil
  then show ?case by simp
next
  case (Cons x L)
  obtain p d where x: "x = (p, d)" by (cases x)
  from Cons.prems Cons.IH [of "cs[i := setTextContentAt p (getA11yLabel doc d) (cs ! i)]"]
  show ?case by (simp add: x assignLabel_def below_def)
qed

text \<open>Once the content of an element is replaced, the assignments to its former
  descendants do not reach the tree any more.\<close>

lemma fold_assignLabel_detached:
  "\<forall>x \<in> set L. fst x \<noteq> [] \<Longrightarrow>
   fold (assignLabel doc) L (Element names as (textChildren s)) = Element names as (textChildren s)"
proof (induction L)
  case Nil
  then show ?case by simp
next
  case (Cons x L)
  obtain p d where x: "x = (p, d)" by (cases x)
  with Cons.prems obtain i q where p: "p = i # q" by (cases p) auto
  have "assignLabel doc x (Element names as (textChildren s)) = Element names as (textChildren s)"
    by (cases i) (simp_all add: x p assignLabel_def textChildren_def)
  with Cons show ?case by simp
qed

text \<open>The children are worked through from left to right; \<open>pre\<close> holds those done.\<close>

lemma fold_assignLabel_children:
  assumes "\<And>c. c \<in> set cs \<Longrightarrow>
      fold (assignLabel doc) (filter labelled (inclusiveDescendants c)) c = replaceLabelled doc c"
  shows "fold (assignLabel doc)
      (filter labelled
         (concat (map (\<lambda>(i, c). map (below i) (inclusiveDescendants c))
                      (enumerate (length pre) cs))))
      (Element names as (pre @ cs))
    = Element names as (pre @ map (replaceLabelled doc) cs)"
  using assms
proof (induction cs arbitrary: pre)
  case Nil
  then show ?case by simp
next
  case (Cons c cs)
  have c: "fold (assignLabel doc) (filter labelled (inclusiveDescendants c)) c
      = replaceLabelled doc c"
    by (rule Cons.prems) simp
  have first: "fold (assignLabel doc)
        (map (below (length pre)) (filter labelled (inclusiveDescendants c)))
        (Element names as (pre @ c # cs))
      = Element names as ((pre @ [replaceLabelled doc c]) @ cs)"
    by (subst fold_assignLabel_below) (simp_all add: c)
  have rest: "fold (assignLabel doc)
      (filter labelled
         (concat (map (\<lambda>(i, c). map (below i) (inclusiveDescendants c))
                      (enumerate (length (pre @ [replaceLabelled doc c])) cs))))
      (Element names as ((pre @ [replaceLabelled doc c]) @ cs))
    = Element names as ((pre @ [replaceLabelled doc c]) @ map (replaceLabelled doc) cs)"
    by (rule Cons.IH) (rule Cons.prems, simp)
  show ?case
    using first rest
    by (simp add: filter_labelled_below)
qed

lemma fold_assignLabel_node:
  "fold (assignLabel doc) (filter labelled (inclusiveDescendants c)) c = replaceLabelled doc c"
proof (induction c)
  case (Element names as cs)
  show ?case
  proof (cases "labelSelector (Element names as cs)")
    case True
    have "\<forall>x \<in> set (filter labelled (descendants (Element names as cs))). fst x \<noteq> []"
      by (auto dest: descendants_nonempty_path simp del: descendants.simps)
    then have "fold (assignLabel doc) (filter labelled (descendants (Element names as cs)))
         (Element names as (textChildren (getA11yLabel doc (Element names as cs))))
       = Element names as (textChildren (getA11yLabel doc (Element names as cs)))"
      by (rule fold_assignLabel_detached)
    with True show ?thesis
      by (simp add: labelled_def assignLabel_def inclusiveDescendants_def
            del: descendants.simps)
  next
    case False
    have "fold (assignLabel doc)
      (filter labelled
         (concat (map (\<lambda>(i, c). map (below i) (inclusiveDescendants c))
                      (enumerate (length ([]::node list)) cs))))
      (Element names as ([] @ cs))
    = Element names as ([] @ map (replaceLabelled doc) cs)"
      by (rule fold_assignLabel_children) (rule Element.IH)
    with False show ?thesis
      by (simp add: labelled_def descendants_below inclusiveDescendants_def [of "Element names as cs"]
            del: descendants.simps)
  qed
qed (simp_all add: labelled_def inclusiveDescendants_def)

text \<open>
  When the element has no non-empty \<open>aria-label\<close> and the lookup that the code makes,
  \<open>getElementById\<close> of the \<open>aria-labelledby\<close> value converted to a string, finds nothing,
  the label is the trimmed text content of the clone with the labelled descendants
  replaced. A reference to an id that does not exist is such a case.
\<close>

lemma getA11yLabel_fallthrough:
  assumes "\<not> truthy (map_of as ''aria-label'')"
    and "getElementById doc (toDOMString (map_of as ''aria-labelledby'')) = None"
  shows "getA11yLabel doc (Element names as cs) =
           trim (textContent (Element names as (map (replaceLabelled doc) cs)))"
proof -
  have "fold (assignLabel doc)
      (filter labelled
         (concat (map (\<lambda>(i, c). map (below i) (inclusiveDescendants c))
                      (enumerate (length ([]::node list)) cs))))
      (Element names as ([] @ cs))
    = Element names as ([] @ map (replaceLabelled doc) cs)"
    by (rule fold_assignLabel_children) (rule fold_assignLabel_node)
  then have "fold (\<lambda>(p, el) c. setTextContentAt p (getA11yLabel doc el) c)
        (querySelectorAll labelSelector (Element names as cs)) (Element names as cs)
      = Element names as (map (replaceLabelled doc) cs)"
    by (simp add: querySelectorAll_def descendants_below assignLabel_def labelled_def
          del: descendants.simps)
  with assms show ?thesis
    by (subst getA11yLabel.simps) (simp add: cloneNode_def del: textContent.simps)
qed

lemma getA11yLabel_fallthrough_example:
  "getA11yLabel (Element (''HTML'', ''html'') [] [])
     (Element (''DIV'', ''div'') [(''aria-labelledby'', ''missing'')]
        [Text ''Hello '', Element (''SPAN'', ''span'') [(''aria-label'', ''World'')] [Text ''ignored'']])
   = ''Hello World''"
proof -
  have s: "getA11yLabel (Element (''HTML'', ''html'') [] [])
      (Element (''SPAN'', ''span'') [(''aria-label'', ''World'')] [Text ''ignored'']) = ''World''"
    by (subst getA11yLabel.simps) simp
  show ?thesis
    using getA11yLabel_fallthrough
      [of "[(''aria-labelledby'', ''missing'')]" "Element (''HTML'', ''html'') [] []" "(''DIV'', ''div'')"
          "[Text ''Hello '', Element (''SPAN'', ''span'') [(''aria-label'', ''World'')] [Text ''ignored'']]"]
    by (simp add: getElementById_def labelSelector_def s textChildren_def trim_def
          isWhiteSpace_def)
qed

text \<open>
  Claim C4. The claim asks for this label whenever \<open>aria-labelledby\<close>, if present, does
  not resolve. For an element without \<open>aria-labelledby\<close> the code still calls
  \<open>getElementById\<close>, with null, which is converted to the string \<open>null\<close>: in a document
  that has an element with the id \<open>null\<close>, the label is the text of that element and
  not the text of the element's own subtree.
\<close>

theorem getA11yLabel_null_id:
  "getAttribute (Element (''DIV'', ''div'') [] [Text ''Hi'']) ''aria-label'' = None
   \<and> getAttribute (Element (''DIV'', ''div'') [] [Text ''Hi'']) ''aria-labelledby'' = None
   \<and> getA11yLabel (Element (''HTML'', ''html'') [] [Element (''P'', ''p'') [(''id'', ''null'')] [Text ''X'']])
        (Element (''DIV'', ''div'') [] [Text ''Hi''])
       = ''X''
   \<and> trim (textContent (Element (''DIV'', ''div'') []
        (map (replaceLabelled (Element (''HTML'', ''html'') [] [Element (''P'', ''p'') [(''id'', ''null'')] [Text ''X'']]))
             [Text ''Hi''])))
       = ''Hi''"
  by (subst getA11yLabel.simps) (simp add: getElementById_def trim_def isWhiteSpace_def)

end
